theory Spec2Isabelle
  imports Complex_Main
begin

section \<open>Officer booking form: cost calculation\<close>

text \<open>
  Source: \<^verbatim>\<open>officer-booking.component.ts\<close>, class \<^verbatim>\<open>OfficerBookingComponent\<close>.
\<close>

subsection \<open>JavaScript numbers\<close>

text \<open>
  A JavaScript \<^verbatim>\<open>number\<close> is an IEEE 754 double. A finite double is modelled as the
  rational it denotes, and \<open>toDouble\<close> rounds an exact result to the nearest double,
  a tie going to the even significand, as \<^verbatim>\<open>*\<close> and \<^verbatim>\<open>+\<close> do. The significand has 53
  bits; the exponent is not bounded, so overflow to \<^verbatim>\<open>Infinity\<close> and subnormal
  numbers are outside the model.
\<close>

type_synonym number = rat

text \<open>The nearest integer, a tie going to the even one.\<close>

definition roundEven :: "rat \<Rightarrow> int" where
  "roundEven x =
     (let f = \<lfloor>x\<rfloor>; r = x - of_int f
      in if r < 1 / 2 then f
         else if 1 / 2 < r then f + 1
         else if even f then f else f + 1)"

text \<open>
  The binary exponent of a positive number,
  \<open>2 powi binexp x \<le> x < 2 powi (binexp x + 1)\<close>, found by halving a number
  from 2 on and by doubling a number below 1.
\<close>

function halvings :: "rat \<Rightarrow> nat" where
  "halvings x = (if 2 \<le> x then Suc (halvings (x / 2)) else 0)"
  by pat_completeness auto
termination
proof (relation "measure (\<lambda>x. nat \<lceil>x\<rceil>)")
  show "wf (measure (\<lambda>x::rat. nat \<lceil>x\<rceil>))" by simp
next
  fix x :: rat
  assume "2 \<le> x"
  then have "x / 2 \<le> x - 1" by simp
  then have "\<lceil>x / 2\<rceil> \<le> \<lceil>x - 1\<rceil>" by (rule ceiling_mono)
  moreover have "0 < \<lceil>x\<rceil>" using \<open>2 \<le> x\<close> by (simp add: ceiling_less_iff less_ceiling_iff)
  ultimately show "(x / 2, x) \<in> measure (\<lambda>x. nat \<lceil>x\<rceil>)"
    by simp
qed

function doublings :: "rat \<Rightarrow> nat" where
  "doublings x = (if 0 < x \<and> x < 1 then Suc (doublings (2 * x)) else 0)"
  by pat_completeness auto
termination
proof (relation "measure (\<lambda>x. nat \<lceil>1 / x\<rceil>)")
  show "wf (measure (\<lambda>x::rat. nat \<lceil>1 / x\<rceil>))" by simp
next
  fix x :: rat
  assume a: "0 < x \<and> x < 1"
  then have t: "1 < 1 / x" by simp
  have "\<lceil>1 / (2 * x)\<rceil> < \<lceil>1 / x\<rceil>"
  proof (cases "2 \<le> 1 / x")
    case True
    then have "1 / (2 * x) \<le> 1 / x - 1" by (simp add: field_simps)
    then have "\<lceil>1 / (2 * x)\<rceil> \<le> \<lceil>1 / x - 1\<rceil>" by (rule ceiling_mono)
    then show ?thesis by simp
  next
    case False
    then have "1 / (2 * x) \<le> 1" using a by (simp add: field_simps)
    then have c1: "\<lceil>1 / (2 * x)\<rceil> \<le> 1" by (simp add: ceiling_le_iff)
    have c2: "1 < \<lceil>1 / x\<rceil>" using t by (simp add: less_ceiling_iff)
    from c1 c2 show ?thesis by linarith
  qed
  moreover have "0 < \<lceil>1 / x\<rceil>" using t a by simp
  ultimately show "(2 * x, x) \<in> measure (\<lambda>x. nat \<lceil>1 / x\<rceil>)"
    by simp
qed

declare halvings.simps [simp del] doublings.simps [simp del]

definition binexp :: "rat \<Rightarrow> int" where
  "binexp x = (if 1 \<le> x then int (halvings x) else - int (doublings x))"

definition toDouble :: "rat \<Rightarrow> number" where
  "toDouble x =
     (if x = 0 then 0
      else
        let ulp = 2 powi (binexp \<bar>x\<bar> - 52)
        in sgn x * of_int (roundEven (\<bar>x\<bar> / ulp)) * ulp)"

text \<open>\<^verbatim>\<open>x * y\<close> and \<^verbatim>\<open>x + y\<close> on numbers.\<close>

definition dmul :: "number \<Rightarrow> number \<Rightarrow> number" where
  "dmul x y = toDouble (x * y)"

definition dadd :: "number \<Rightarrow> number \<Rightarrow> number" where
  "dadd x y = toDouble (x + y)"

text \<open>
  \<^verbatim>\<open>Math.round(x)\<close>: the integer nearest to \<open>x\<close>, a tie going up. It is exact on the
  numbers below \<open>2 ^ 52\<close>.
\<close>

definition Math_round :: "number \<Rightarrow> number" where
  "Math_round x = of_int \<lfloor>x + 1 / 2\<rfloor>"

subsection \<open>The form and the component\<close>

text \<open>
  The three controls of \<^verbatim>\<open>bookingForm\<close> that \<^verbatim>\<open>calculateCost\<close> reads. \<open>None\<close> is
  an empty control (\<^verbatim>\<open>''\<close> or \<^verbatim>\<open>null\<close>).
\<close>

record BookingForm =
  weight :: "number option"
  deliveryType :: "string option"
  packingPreference :: "string option"

text \<open>The cost properties of the component (lines 850 to 862 of the source).\<close>

record OfficerBookingComponent =
  calculatedCost :: number
  baseRate :: number
  weightCharge :: number
  deliveryCharge :: number
  packingCharge :: number
  adminFee :: number
  subtotal :: number
  taxAmount :: number
  parcelWeightInGram :: number

definition initialComponent :: OfficerBookingComponent where
  "initialComponent =
     \<lparr>calculatedCost = 0, baseRate = 50, weightCharge = 0, deliveryCharge = 0,
      packingCharge = 0, adminFee = 50, subtotal = 0, taxAmount = 0,
      parcelWeightInGram = 0\<rparr>"

text \<open>
  \<^verbatim>\<open>bookingForm.get('weight')?.valid\<close> with the validators
  \<^verbatim>\<open>[Validators.required, Validators.min(100), Validators.max(50000)]\<close>.
\<close>

definition weightValid :: "BookingForm \<Rightarrow> bool" where
  "weightValid form =
     (case weight form of
        None \<Rightarrow> False
      | Some v \<Rightarrow> 100 \<le> v \<and> v \<le> 50000)"

text \<open>\<^verbatim>\<open>value || 0\<close> on a number control and \<^verbatim>\<open>value || dflt\<close> on a string control.\<close>

definition orZero :: "number option \<Rightarrow> number" where
  "orZero v = (case v of None \<Rightarrow> 0 | Some x \<Rightarrow> x)"

definition orString :: "string option \<Rightarrow> string \<Rightarrow> string" where
  "orString v dflt = (case v of None \<Rightarrow> dflt | Some s \<Rightarrow> if s = [] then dflt else s)"

text \<open>The \<^verbatim>\<open>switch (deliveryType)\<close> and the \<^verbatim>\<open>switch (packingType)\<close> of \<^verbatim>\<open>calculateCost\<close>.\<close>

definition deliveryChargeFor :: "string \<Rightarrow> number" where
  "deliveryChargeFor dt =
     (if dt = ''STANDARD'' then 30
      else if dt = ''EXPRESS'' then 80
      else if dt = ''SAME_DAY'' then 150
      else 30)"

definition packingChargeFor :: "string \<Rightarrow> number" where
  "packingChargeFor pt =
     (if pt = ''BASIC'' then 10
      else if pt = ''PREMIUM'' then 20
      else 10)"

text \<open>
  \<^verbatim>\<open>calculateCost\<close>. The literals \<^verbatim>\<open>0.02\<close> and \<^verbatim>\<open>0.05\<close> are the doubles nearest to
  \<open>2 / 100\<close> and \<open>5 / 100\<close>; the sum of the subtotal is taken from left to right, each
  addition rounding.
\<close>

definition calculateCost :: "OfficerBookingComponent \<Rightarrow> BookingForm \<Rightarrow> OfficerBookingComponent" where
  "calculateCost this form =
     (let w = orZero (weight form);
          dt = orString (deliveryType form) ''STANDARD'';
          pt = orString (packingPreference form) ''BASIC'';
          this = this\<lparr>parcelWeightInGram := w\<rparr>
      in if \<not> weightValid form then
           this\<lparr>weightCharge := 0, deliveryCharge := 0, packingCharge := 0,
                subtotal := 0, taxAmount := 0, calculatedCost := 0\<rparr>
         else
           let this = this\<lparr>weightCharge := dmul (parcelWeightInGram this) (toDouble (2 / 100))\<rparr>;
               this = this\<lparr>deliveryCharge := deliveryChargeFor dt\<rparr>;
               this = this\<lparr>packingCharge := packingChargeFor pt\<rparr>;
               this = this\<lparr>subtotal :=
                        dadd (dadd (dadd (dadd (baseRate this) (weightCharge this))
                                      (deliveryCharge this))
                                (packingCharge this))
                          (adminFee this)\<rparr>;
               this = this\<lparr>taxAmount := dmul (subtotal this) (toDouble (5 / 100))\<rparr>
           in this\<lparr>calculatedCost := Math_round (dadd (subtotal this) (taxAmount this))\<rparr>)"

subsection \<open>The backend calculator\<close>

text \<open>
  Modelled from the spec: \<^verbatim>\<open>CostCalculator.calculateServiceCost\<close>, which
  \<^verbatim>\<open>BookingController\<close> calls with \<^verbatim>\<open>isOfficerBooking = false\<close> for a customer
  booking and \<^verbatim>\<open>true\<close> for an officer booking, is not among the source files. The
  definition follows section 4.1 of the specification: base rate 50, weight charge
  \<open>weight * 0.02\<close>, delivery charge 30, 80 or 150 (an unrecognised value taking 30),
  packing charge 10 or 20 (an unrecognised value taking 10), admin fee 50 when the
  booking is officer-assisted, tax rate 5 percent, rounded half up at the end. The
  specification gives the formula on decimal numbers, and so does the definition.
\<close>

definition calculateServiceCost :: "int \<Rightarrow> string \<Rightarrow> string \<Rightarrow> bool \<Rightarrow> number" where
  "calculateServiceCost weightInGram dt pt isOfficerBooking =
     (let base = 50;
          weightCh = of_int weightInGram * (2 / 100);
          deliveryCh = deliveryChargeFor dt;
          packingCh = packingChargeFor pt;
          admin = (if isOfficerBooking then 50 else 0);
          taxRate = 5 / 100
      in Math_round ((base + weightCh + deliveryCh + packingCh + admin) * (1 + taxRate)))"

section \<open>Repositories and exceptions\<close>

text \<open>
  A Java exception is a value; a method that can throw returns \<open>Exception + 'a\<close>,
  \<open>Inl\<close> being the throw. A table is the list of its rows.
\<close>

datatype Exception =
    IncorrectResultSizeDataAccessException
  | DataAccessException string
  | IllegalArgumentException string
  | StringIndexOutOfBoundsException
  | RuntimeException string

fun getMessage :: "Exception \<Rightarrow> string" where
  "getMessage IncorrectResultSizeDataAccessException = ''Query did not return a unique result''"
| "getMessage (DataAccessException m) = m"
| "getMessage (IllegalArgumentException m) = m"
| "getMessage StringIndexOutOfBoundsException = ''String index out of range''"
| "getMessage (RuntimeException m) = m"

text \<open>
  A derived query of Spring Data that returns \<^verbatim>\<open>Optional<T>\<close>
  (\<^verbatim>\<open>findByEmail\<close>, \<^verbatim>\<open>findByUniqueId\<close>, \<^verbatim>\<open>findByBookingId\<close>): empty when no row
  matches, the row when one matches, an exception when several do.
\<close>

definition findOne :: "('a \<Rightarrow> bool) \<Rightarrow> 'a list \<Rightarrow> Exception + 'a option" where
  "findOne P rows =
     (case filter P rows of
        [] \<Rightarrow> Inr None
      | [x] \<Rightarrow> Inr (Some x)
      | _ \<Rightarrow> Inl IncorrectResultSizeDataAccessException)"

section \<open>AuthService\<close>

text \<open>Source: \<^verbatim>\<open>AuthService.java\<close> and \<^verbatim>\<open>CustomerRepository\<close>.\<close>

datatype UserRole = CUSTOMER | OFFICER

fun UserRole_toString :: "UserRole \<Rightarrow> string" where
  "UserRole_toString CUSTOMER = ''CUSTOMER''"
| "UserRole_toString OFFICER = ''OFFICER''"

text \<open>\<^verbatim>\<open>UserRole.valueOf(s)\<close> throws on a string that names no constant.\<close>

definition UserRole_valueOf :: "string \<Rightarrow> Exception + UserRole" where
  "UserRole_valueOf s =
     (if s = ''CUSTOMER'' then Inr CUSTOMER
      else if s = ''OFFICER'' then Inr OFFICER
      else Inl (IllegalArgumentException (''No enum constant com.courier.model.UserRole.'' @ s)))"

record Customer =
  customer_id :: nat
  customerName :: string
  email :: string
  password :: string
  countryCode :: string
  mobileNumber :: string
  address :: string
  role :: UserRole
  uniqueId :: string
  getUpdatesVia :: string

record RegisterRequest =
  r_customerName :: string
  r_email :: string
  r_password :: string
  r_countryCode :: string
  r_mobileNumber :: string
  r_address :: string
  r_role :: string
  r_preferences :: string

text \<open>The \<^verbatim>\<open>email\<close> field of a login request carries the unique id.\<close>

record LoginRequest =
  l_email :: string
  l_password :: string

record AuthResponse =
  success :: bool
  message :: string
  token :: "string option"
  a_id :: "nat option"
  a_customerName :: "string option"
  a_email :: "string option"
  a_countryCode :: "string option"
  a_mobileNumber :: "string option"
  a_address :: "string option"
  a_role :: "string option"
  a_uniqueId :: "string option"
  a_preferences :: "string option"

text \<open>\<^verbatim>\<open>new AuthResponse(false, msg, null, ..., null)\<close>.\<close>

definition failureResponse :: "string \<Rightarrow> AuthResponse" where
  "failureResponse msg =
     \<lparr>success = False, message = msg, token = None, a_id = None, a_customerName = None,
      a_email = None, a_countryCode = None, a_mobileNumber = None, a_address = None,
      a_role = None, a_uniqueId = None, a_preferences = None\<rparr>"

definition successResponse :: "string \<Rightarrow> string \<Rightarrow> Customer \<Rightarrow> AuthResponse" where
  "successResponse msg tok c =
     \<lparr>success = True, message = msg, token = Some tok, a_id = Some (customer_id c),
      a_customerName = Some (customerName c), a_email = Some (email c),
      a_countryCode = Some (countryCode c), a_mobileNumber = Some (mobileNumber c),
      a_address = Some (address c), a_role = Some (UserRole_toString (role c)),
      a_uniqueId = Some (uniqueId c), a_preferences = Some (getUpdatesVia c)\<rparr>"

text \<open>
  What the service takes from outside: the password hashing of \<^verbatim>\<open>PasswordUtil\<close>
  (not among the source files), the token of \<^verbatim>\<open>JwtUtil.generateToken\<close> (signed
  with the server's key and stamped with the time, so given here by a function of
  the email, the id and the role), the clock and the random number
  \<^verbatim>\<open>(int)(Math.random() * 1000)\<close>.
\<close>

record Env =
  encode :: "string \<Rightarrow> string"
  matches :: "string \<Rightarrow> string \<Rightarrow> bool"
  generateToken :: "string \<Rightarrow> nat \<Rightarrow> UserRole \<Rightarrow> string"
  currentTimeMillis :: nat
  random1000 :: nat

text \<open>\<^verbatim>\<open>String.valueOf\<close> of a non-negative number: its decimal digits.\<close>

definition digitChar :: "nat \<Rightarrow> char" where
  "digitChar d = ''0123456789'' ! d"

function String_valueOf :: "nat \<Rightarrow> string" where
  "String_valueOf n =
     (if n < 10 then [digitChar n]
      else String_valueOf (n div 10) @ [digitChar (n mod 10)])"
  by pat_completeness auto
termination
  by (relation "measure (\<lambda>n. n)") auto

declare String_valueOf.simps [simp del]

text \<open>\<^verbatim>\<open>s.substring(8)\<close> throws when \<open>s\<close> has fewer than 8 characters.\<close>

definition substring :: "string \<Rightarrow> nat \<Rightarrow> Exception + string" where
  "substring s n = (if length s < n then Inl StringIndexOutOfBoundsException else Inr (drop n s))"

definition findByEmail :: "Customer list \<Rightarrow> string \<Rightarrow> Exception + Customer option" where
  "findByEmail customers e = findOne (\<lambda>c. email c = e) customers"

definition findByUniqueId :: "Customer list \<Rightarrow> string \<Rightarrow> Exception + Customer option" where
  "findByUniqueId customers u = findOne (\<lambda>c. uniqueId c = u) customers"

text \<open>\<^verbatim>\<open>customerRepository.save\<close> of a new entity: the next generated id, a new row.\<close>

definition nextCustomerId :: "Customer list \<Rightarrow> nat" where
  "nextCustomerId customers = Suc (foldr max (map customer_id customers) 0)"

definition saveCustomer :: "Customer list \<Rightarrow> Customer \<Rightarrow> Customer \<times> Customer list" where
  "saveCustomer customers c =
     (let saved = c\<lparr>customer_id := nextCustomerId customers\<rparr>
      in (saved, customers @ [saved]))"

text \<open>
  \<^verbatim>\<open>register\<close>: the body is one \<^verbatim>\<open>try\<close> block whose \<^verbatim>\<open>catch (Exception e)\<close>
  answers \<^verbatim>\<open>"Registration failed: " + e.getMessage()\<close>. The result is the customer
  table afterwards and the response.
\<close>

definition registrationFailed :: "Customer list \<Rightarrow> Exception \<Rightarrow> Customer list \<times> AuthResponse" where
  "registrationFailed customers e =
     (customers, failureResponse (''Registration failed: '' @ getMessage e))"

definition register :: "Env \<Rightarrow> Customer list \<Rightarrow> RegisterRequest \<Rightarrow> Customer list \<times> AuthResponse" where
  "register env customers request =
     (case findByEmail customers (r_email request) of
        Inl e \<Rightarrow> registrationFailed customers e
      | Inr (Some existing) \<Rightarrow> (customers, failureResponse ''Email already registered'')
      | Inr None \<Rightarrow>
          (case UserRole_valueOf (r_role request) of
             Inl e \<Rightarrow> registrationFailed customers e
           | Inr rl \<Rightarrow>
               (case substring (String_valueOf (currentTimeMillis env)) 8 of
                  Inl e \<Rightarrow> registrationFailed customers e
                | Inr timestamp \<Rightarrow>
                    let prefix = (if rl = CUSTOMER then ''CUST'' else ''OFF'');
                        randomSuffix = String_valueOf (random1000 env);
                        customer =
                          \<lparr>customer_id = 0,
                           customerName = r_customerName request,
                           email = r_email request,
                           password = encode env (r_password request),
                           countryCode = r_countryCode request,
                           mobileNumber = r_mobileNumber request,
                           address = r_address request,
                           role = rl,
                           uniqueId = prefix @ timestamp @ randomSuffix,
                           getUpdatesVia = r_preferences request\<rparr>;
                        (savedCustomer, customers') = saveCustomer customers customer;
                        tok = generateToken env (email savedCustomer)
                                (customer_id savedCustomer) (role savedCustomer)
                    in (customers',
                        successResponse
                          (''Registration successful for: '' @ customerName savedCustomer)
                          tok savedCustomer))))"

text \<open>
  \<^verbatim>\<open>login\<close> and \<^verbatim>\<open>officerLogin\<close> have no \<^verbatim>\<open>try\<close> block: an exception of the
  repository leaves the method.
\<close>

definition login :: "Env \<Rightarrow> Customer list \<Rightarrow> LoginRequest \<Rightarrow> Exception + AuthResponse" where
  "login env customers request =
     (case findByUniqueId customers (l_email request) of
        Inl e \<Rightarrow> Inl e
      | Inr None \<Rightarrow> Inr (failureResponse ''Invalid Customer ID or password'')
      | Inr (Some customer) \<Rightarrow>
          if role customer \<noteq> CUSTOMER then
            Inr (failureResponse
              ''Access denied. Customer login required. Please use officer login for officer accounts.'')
          else if \<not> matches env (l_password request) (password customer) then
            Inr (failureResponse ''Invalid Customer ID or password'')
          else
            Inr (successResponse ''Login successful''
                   (generateToken env (email customer) (customer_id customer) (role customer))
                   customer))"

definition officerLogin :: "Env \<Rightarrow> Customer list \<Rightarrow> LoginRequest \<Rightarrow> Exception + AuthResponse" where
  "officerLogin env customers request =
     (case findByUniqueId customers (l_email request) of
        Inl e \<Rightarrow> Inl e
      | Inr None \<Rightarrow> Inr (failureResponse ''Invalid Officer ID or password'')
      | Inr (Some customer) \<Rightarrow>
          if role customer \<noteq> OFFICER then
            Inr (failureResponse ''Access denied. Officer privileges required'')
          else if \<not> matches env (l_password request) (password customer) then
            Inr (failureResponse ''Invalid Officer ID or password'')
          else
            Inr (successResponse ''Login successful''
                   (generateToken env (email customer) (customer_id customer) (role customer))
                   customer))"

section \<open>Bookings and payments\<close>

text \<open>
  Source: \<^verbatim>\<open>BookingService\<close>, \<^verbatim>\<open>BookingRepository\<close> and \<^verbatim>\<open>PaymentController\<close>.
  \<open>booking_id\<close> is the generated numeric id of a booking (its primary key),
  \<open>bookingId\<close> the external identifier.
\<close>

datatype ParcelStatus = NEW | BOOKED | IN_TRANSIT | DELIVERED | CANCELLED

record Booking =
  booking_id :: nat
  bookingId :: string
  weightInGram :: int
  parcelStatus :: ParcelStatus
  parcelServiceCost :: number

record Payment =
  paymentId :: string
  transactionId :: string
  pay_booking :: nat
  amount :: number
  paymentTime :: nat
  maskedCard :: string

record PaymentRequest =
  p_bookingId :: string
  cardNumber :: string
  cardholderName :: string
  expiryDate :: string
  cvv :: string

record Database =
  bookings :: "Booking list"
  payments :: "Payment list"

definition findByBookingId :: "Database \<Rightarrow> string \<Rightarrow> Exception + Booking option" where
  "findByBookingId db bid = findOne (\<lambda>b. bookingId b = bid) (bookings db)"

text \<open>
  \<^verbatim>\<open>BookingService.getBookingById\<close>: \<^verbatim>\<open>orElse(null)\<close> on the repository's answer,
  and \<^verbatim>\<open>null\<close> from the \<^verbatim>\<open>catch (Exception e)\<close>. \<open>None\<close> is \<^verbatim>\<open>null\<close>.
\<close>

definition getBookingById :: "Database \<Rightarrow> string \<Rightarrow> Booking option" where
  "getBookingById db bid =
     (case findByBookingId db bid of
        Inl e \<Rightarrow> None
      | Inr found \<Rightarrow> found)"

text \<open>
  What payment processing takes from outside: the generated identifiers, the clock,
  the masking of the card number, and whether \<^verbatim>\<open>bookingRepository.save\<close> throws on
  this request (a failure of the database).
\<close>

record PaymentEnv =
  newPaymentId :: string
  newTransactionId :: string
  now :: nat
  mask :: "string \<Rightarrow> string"
  saveThrows :: bool

text \<open>
  \<^verbatim>\<open>bookingRepository.save\<close>: the row with the entity's id is replaced; an entity
  whose id is not in the table becomes a new row. When the database fails the call
  throws and the table is as before.
\<close>

definition saveBooking :: "Booking list \<Rightarrow> Booking \<Rightarrow> Booking list" where
  "saveBooking rows b =
     (if booking_id b \<in> set (map booking_id rows)
      then map (\<lambda>row. if booking_id row = booking_id b then b else row) rows
      else rows @ [b])"

definition bookingRepository_save ::
    "PaymentEnv \<Rightarrow> Booking list \<Rightarrow> Booking \<Rightarrow> Exception + Booking \<times> Booking list" where
  "bookingRepository_save env rows b =
     (if saveThrows env then Inl (DataAccessException ''Could not save the booking'')
      else Inr (b, saveBooking rows b))"

text \<open>
  \<^verbatim>\<open>BookingService.updateBooking\<close>: the saved booking, or \<^verbatim>\<open>null\<close> from the
  \<^verbatim>\<open>catch (Exception e)\<close> when the save throws.
\<close>

definition updateBooking :: "PaymentEnv \<Rightarrow> Database \<Rightarrow> Booking \<Rightarrow> Database \<times> Booking option" where
  "updateBooking env db b =
     (case bookingRepository_save env (bookings db) b of
        Inl e \<Rightarrow> (db, None)
      | Inr (saved, rows) \<Rightarrow> (db\<lparr>bookings := rows\<rparr>, Some saved))"

text \<open>
  Modelled from the spec: \<^verbatim>\<open>PaymentService.processPayment\<close> is not among the source
  files; only its call in \<^verbatim>\<open>PaymentController\<close> is. By the specification a payment
  is linked one-to-one to a booking, carries a payment id, a transaction id, the
  amount, a timestamp and a masked card reference, and is persisted when it is
  created. Creating a payment for a booking that already has one is rejected with a
  state-conflict error (sections 3 and 6). Payment is the transition from NEW to
  BOOKED and no other, and a transition asked from another status is rejected with
  the persisted state left as it is (section 4.2). A rejection is an exception,
  since the controller reports failures from its \<^verbatim>\<open>catch\<close> block.
\<close>

definition paymentExistsMessage :: string where
  "paymentExistsMessage = ''Payment already exists for this booking''"

definition invalidStatusMessage :: string where
  "invalidStatusMessage = ''Payment is only possible for a booking with status NEW''"

definition PaymentService_processPayment ::
    "PaymentEnv \<Rightarrow> Database \<Rightarrow> Booking \<Rightarrow> PaymentRequest \<Rightarrow> Exception + Payment \<times> Database" where
  "PaymentService_processPayment env db booking request =
     (if booking_id booking \<in> set (map pay_booking (payments db))
      then Inl (RuntimeException paymentExistsMessage)
      else if parcelStatus booking \<noteq> NEW
      then Inl (RuntimeException invalidStatusMessage)
      else
        let payment =
              \<lparr>paymentId = newPaymentId env,
               transactionId = newTransactionId env,
               pay_booking = booking_id booking,
               amount = parcelServiceCost booking,
               paymentTime = now env,
               maskedCard = mask env (cardNumber request)\<rparr>
        in Inr (payment, db\<lparr>payments := payments db @ [payment]\<rparr>))"

text \<open>The body of a payment response and the HTTP status it is sent with.\<close>

record PaymentResponse =
  pr_success :: bool
  pr_message :: string
  pr_payment :: "Payment option"

record ResponseEntity =
  status :: nat
  body :: PaymentResponse

definition badRequest :: "PaymentResponse \<Rightarrow> ResponseEntity" where
  "badRequest b = \<lparr>status = 400, body = b\<rparr>"

definition ok :: "PaymentResponse \<Rightarrow> ResponseEntity" where
  "ok b = \<lparr>status = 200, body = b\<rparr>"

text \<open>
  \<^verbatim>\<open>PaymentController.processPayment\<close>: the database afterwards and the response.
  The controller does not look at what \<^verbatim>\<open>updateBooking\<close> returns.
\<close>

definition processPayment ::
    "PaymentEnv \<Rightarrow> Database \<Rightarrow> PaymentRequest \<Rightarrow> Database \<times> ResponseEntity" where
  "processPayment env db request =
     (case getBookingById db (p_bookingId request) of
        None \<Rightarrow>
          (db, badRequest \<lparr>pr_success = False, pr_message = ''Booking not found'',
                           pr_payment = None\<rparr>)
      | Some booking \<Rightarrow>
          (case PaymentService_processPayment env db booking request of
             Inl e \<Rightarrow>
               (db, badRequest \<lparr>pr_success = False,
                                pr_message = ''Payment failed: '' @ getMessage e,
                                pr_payment = None\<rparr>)
           | Inr (payment, db') \<Rightarrow>
               let booking = booking\<lparr>parcelStatus := BOOKED\<rparr>;
                   (db'', updated) = updateBooking env db' booking
               in (db'', ok \<lparr>pr_success = True,
                              pr_message = ''Payment processed successfully'',
                              pr_payment = Some payment\<rparr>)))"

text \<open>The status of the booking with a given external identifier, if it can be read.\<close>

definition statusOf :: "Database \<Rightarrow> string \<Rightarrow> ParcelStatus option" where
  "statusOf db bid = map_option parcelStatus (getBookingById db bid)"

section \<open>Feedback listing\<close>

text \<open>
  Source: \<^verbatim>\<open>FeedbackService.getOfficerFeedbackPaginated\<close> and the queries of
  \<^verbatim>\<open>FeedbackRepository\<close>.
\<close>

record Feedback =
  feedback_id :: nat
  customer :: Customer
  booking :: Booking
  feedbackDescription :: string
  rating :: nat

record Pageable =
  pageNumber :: nat
  pageSize :: nat

record Page =
  content :: "Feedback list"
  totalElements :: nat
  pageNo :: nat
  pageSz :: nat

definition PageRequest_of :: "nat \<Rightarrow> nat \<Rightarrow> Pageable" where
  "PageRequest_of page sz = \<lparr>pageNumber = page, pageSize = sz\<rparr>"

definition hasContent :: "Page \<Rightarrow> bool" where
  "hasContent p = (content p \<noteq> [])"

text \<open>The page of a query result: the rows of the requested page and the count of all rows.\<close>

definition pageOf :: "Feedback list \<Rightarrow> Pageable \<Rightarrow> Page" where
  "pageOf rows pageable =
     \<lparr>content = take (pageSize pageable) (drop (pageNumber pageable * pageSize pageable) rows),
      totalElements = length rows,
      pageNo = pageNumber pageable,
      pageSz = pageSize pageable\<rparr>"

text \<open>\<^verbatim>\<open>LOWER\<close> on ASCII letters.\<close>

definition lowerChar :: "char \<Rightarrow> char" where
  "lowerChar c =
     (if (65::nat) \<le> of_char c \<and> of_char c \<le> (90::nat)
      then char_of (of_char c + (32::nat)) else c)"

definition LOWER :: "string \<Rightarrow> string" where
  "LOWER s = map lowerChar s"

text \<open>
  \<^verbatim>\<open>s LIKE pattern\<close> without an escape character: \<^verbatim>\<open>%\<close> stands for any run of
  characters and \<^verbatim>\<open>_\<close> for any one character.
\<close>

fun like :: "string \<Rightarrow> string \<Rightarrow> bool" where
  "like s [] = (s = [])"
| "like [] (p # ps) = (p = CHR ''%'' \<and> like [] ps)"
| "like (c # cs) (p # ps) =
     (if p = CHR ''%'' then like (c # cs) ps \<or> like cs (p # ps)
      else (p = CHR ''_'' \<or> p = c) \<and> like cs ps)"

text \<open>\<^verbatim>\<open>LOWER(field) LIKE LOWER(CONCAT('%', :param, '%'))\<close>.\<close>

definition containingIgnoreCase :: "string \<Rightarrow> string \<Rightarrow> bool" where
  "containingIgnoreCase field param = like (LOWER field) (LOWER (''%'' @ param @ ''%''))"

definition findAll :: "Feedback list \<Rightarrow> Pageable \<Rightarrow> Page" where
  "findAll feedbacks pageable = pageOf feedbacks pageable"

definition findByCustomerNameContainingIgnoreCase :: "Feedback list \<Rightarrow> string \<Rightarrow> Pageable \<Rightarrow> Page" where
  "findByCustomerNameContainingIgnoreCase feedbacks nm pageable =
     pageOf (filter (\<lambda>f. containingIgnoreCase (customerName (customer f)) nm) feedbacks) pageable"

definition findByBookingIdContainingIgnoreCase :: "Feedback list \<Rightarrow> string \<Rightarrow> Pageable \<Rightarrow> Page" where
  "findByBookingIdContainingIgnoreCase feedbacks bid pageable =
     pageOf (filter (\<lambda>f. containingIgnoreCase (bookingId (booking f)) bid) feedbacks) pageable"

definition findByFeedbackDescriptionContainingIgnoreCase :: "Feedback list \<Rightarrow> string \<Rightarrow> Pageable \<Rightarrow> Page" where
  "findByFeedbackDescriptionContainingIgnoreCase feedbacks d pageable =
     pageOf (filter (\<lambda>f. containingIgnoreCase (feedbackDescription f) d) feedbacks) pageable"

text \<open>\<^verbatim>\<open>String.trim\<close>: the characters up to the space (code 32) go from both ends.\<close>

definition isTrimmed :: "char \<Rightarrow> bool" where
  "isTrimmed c = (of_char c \<le> (32::nat))"

definition trim :: "string \<Rightarrow> string" where
  "trim s = rev (dropWhile isTrimmed (rev (dropWhile isTrimmed s)))"

text \<open>
  \<^verbatim>\<open>getOfficerFeedbackPaginated(pageable, filter)\<close>; \<open>None\<close> is a \<^verbatim>\<open>null\<close> filter
  and \<open>filtered\<close> is the branch taken when the trimmed filter is not empty.
\<close>

definition filtered :: "Feedback list \<Rightarrow> Pageable \<Rightarrow> string \<Rightarrow> Page" where
  "filtered feedbacks pageable trimmedFilter =
     (let customerResults = findByCustomerNameContainingIgnoreCase feedbacks trimmedFilter pageable
      in if hasContent customerResults then customerResults
         else
           let bookingResults = findByBookingIdContainingIgnoreCase feedbacks trimmedFilter pageable
           in if hasContent bookingResults then bookingResults
              else
                let descriptionResults =
                      findByFeedbackDescriptionContainingIgnoreCase feedbacks trimmedFilter pageable
                in if hasContent descriptionResults then descriptionResults
                   else findAll feedbacks (PageRequest_of 0 (pageSize pageable)))"

definition getOfficerFeedbackPaginated :: "Feedback list \<Rightarrow> Pageable \<Rightarrow> string option \<Rightarrow> Page" where
  "getOfficerFeedbackPaginated feedbacks pageable flt =
     (case flt of
        None \<Rightarrow> findAll feedbacks pageable
      | Some f \<Rightarrow>
          if trim f \<noteq> [] then filtered feedbacks pageable (trim f)
          else findAll feedbacks pageable)"

section \<open>Example data\<close>

definition env0 :: Env where
  "env0 =
     \<lparr>encode = (\<lambda>p. ''hash:'' @ p),
      matches = (\<lambda>p h. h = ''hash:'' @ p),
      generateToken = (\<lambda>e i r. ''token-for-'' @ e),
      currentTimeMillis = 1754422694940,
      random1000 = 417\<rparr>"

definition alice :: Customer where
  "alice =
     \<lparr>customer_id = 1, customerName = ''Alice Kumar'', email = ''alice@example.com'',
      password = ''hash:secret'', countryCode = ''+91'', mobileNumber = ''9876543210'',
      address = ''12 Lake Road, Chennai'', role = CUSTOMER, uniqueId = ''CUST94940111'',
      getUpdatesVia = ''EMAIL''\<rparr>"

definition officerRavi :: Customer where
  "officerRavi =
     \<lparr>customer_id = 2, customerName = ''Ravi Officer'', email = ''ravi@example.com'',
      password = ''hash:letmein'', countryCode = ''+91'', mobileNumber = ''9123456780'',
      address = ''1 Depot Street, Chennai'', role = OFFICER, uniqueId = ''OFF94940222'',
      getUpdatesVia = ''SMS''\<rparr>"

definition penv0 :: PaymentEnv where
  "penv0 =
     \<lparr>newPaymentId = ''PAY1'', newTransactionId = ''TXN1'', now = 1754422694940,
      mask = (\<lambda>c. ''****'' @ drop (length c - 4) c),
      saveThrows = False\<rparr>"

definition booking1 :: Booking where
  "booking1 =
     \<lparr>booking_id = 1, bookingId = ''BK1754422694940'', weightInGram = 2000,
      parcelStatus = NEW, parcelServiceCost = 137\<rparr>"

definition payRequest1 :: PaymentRequest where
  "payRequest1 =
     \<lparr>p_bookingId = ''BK1754422694940'', cardNumber = ''4111111111111111'',
      cardholderName = ''Alice Kumar'', expiryDate = ''12/27'', cvv = ''123''\<rparr>"

definition feedback1 :: Feedback where
  "feedback1 =
     \<lparr>feedback_id = 1, customer = alice,
      booking = booking1\<lparr>parcelStatus := DELIVERED\<rparr>,
      feedbackDescription = ''Quick and careful delivery'', rating = 5\<rparr>"

section \<open>Properties of the cost calculation\<close>

lemma Math_round_mono: "x \<le> y \<Longrightarrow> Math_round x \<le> Math_round y"
  unfolding Math_round_def by (simp add: floor_mono)

lemma weightValid_Some [simp]:
  "weightValid \<lparr>weight = Some v, deliveryType = d, packingPreference = p\<rparr>
     \<longleftrightarrow> 100 \<le> v \<and> v \<le> 50000"
  by (simp add: weightValid_def)

subsection \<open>Rounding to a double is monotone\<close>

lemma roundEven_mono:
  assumes "x \<le> y"
  shows "roundEven x \<le> roundEven y"
proof (cases "\<lfloor>x\<rfloor> = \<lfloor>y\<rfloor>")
  case True
  then show ?thesis
    using assms by (auto simp: roundEven_def Let_def)
next
  case False
  then have "\<lfloor>x\<rfloor> + 1 \<le> \<lfloor>y\<rfloor>"
    using floor_mono [OF assms] by linarith
  moreover have "roundEven x \<le> \<lfloor>x\<rfloor> + 1"
    by (auto simp: roundEven_def Let_def)
  moreover have "\<lfloor>y\<rfloor> \<le> roundEven y"
    by (auto simp: roundEven_def Let_def)
  ultimately show ?thesis by linarith
qed

lemma roundEven_ge:
  assumes "of_int n \<le> x"
  shows "n \<le> roundEven x"
proof -
  have "n \<le> \<lfloor>x\<rfloor>" using assms by (simp add: le_floor_iff)
  moreover have "\<lfloor>x\<rfloor> \<le> roundEven x"
    by (auto simp: roundEven_def Let_def)
  ultimately show ?thesis by linarith
qed

lemma roundEven_of_int [simp]: "roundEven (of_int n) = n"
  by (simp add: roundEven_def)

lemma roundEven_le:
  assumes "x \<le> of_int n"
  shows "roundEven x \<le> n"
  using roundEven_mono [OF assms] by simp

lemma halvings_bounds:
  assumes "1 \<le> x"
  shows "2 ^ halvings x \<le> x \<and> x < 2 ^ Suc (halvings x)"
  using assms
proof (induction x rule: halvings.induct)
  case (1 x)
  show ?case
  proof (cases "2 \<le> x")
    case True
    then have "1 \<le> x / 2" by simp
    from "1.IH" [OF True this] have "2 ^ halvings (x / 2) \<le> x / 2" "x / 2 < 2 ^ Suc (halvings (x / 2))"
      by simp_all
    then show ?thesis
      using True by (subst (1 2) halvings.simps) (simp add: field_simps)
  next
    case False
    then show ?thesis
      using "1.prems" by (subst (1 2) halvings.simps) simp
  qed
qed

lemma doublings_bounds:
  assumes "0 < x" and "x < 1"
  shows "1 \<le> x * 2 ^ doublings x \<and> x * 2 ^ doublings x < 2"
  using assms
proof (induction x rule: doublings.induct)
  case (1 x)
  show ?case
  proof (cases "2 * x < 1")
    case True
    have "0 < x \<and> x < 1" using "1.prems" by simp
    from "1.IH" [OF this] True "1.prems"
    have "1 \<le> 2 * x * 2 ^ doublings (2 * x)" "2 * x * 2 ^ doublings (2 * x) < 2"
      by simp_all
    then show ?thesis
      using "1.prems" by (subst (1 2) doublings.simps) (simp add: field_simps)
  next
    case False
    have d: "doublings (2 * x) = 0"
      using False by (subst doublings.simps) simp
    show ?thesis
      using "1.prems" False by (subst (1 2) doublings.simps) (simp add: d)
  qed
qed

lemma binexp_bounds:
  assumes "0 < x"
  shows "2 powi binexp x \<le> x" and "x < 2 powi (binexp x + 1)"
proof -
  show "2 powi binexp x \<le> x"
  proof (cases "1 \<le> x")
    case True
    then show ?thesis
      using halvings_bounds [OF True] by (simp add: binexp_def power_int_def)
  next
    case False
    then have "1 \<le> x * 2 ^ doublings x"
      using doublings_bounds [of x] assms by simp
    then show ?thesis
      using False by (simp add: binexp_def power_int_minus field_simps)
  qed
  show "x < 2 powi (binexp x + 1)"
  proof (cases "1 \<le> x")
    case True
    then show ?thesis
      using halvings_bounds [OF True] by (simp add: binexp_def power_int_def nat_add_distrib)
  next
    case False
    then have "x * 2 ^ doublings x < 2"
      using doublings_bounds [of x] assms by simp
    then have "x < 2 * (1 / 2 ^ doublings x)"
      by (simp add: field_simps)
    also have "1 / 2 ^ doublings x = (2::rat) powi binexp x"
      using False by (simp add: binexp_def power_int_minus field_simps)
    also have "2 * (2::rat) powi binexp x = 2 powi (binexp x + 1)"
      by (simp add: power_int_add)
    finally show ?thesis .
  qed
qed


lemma binexp_mono:
  assumes "0 < x" and "x \<le> y"
  shows "binexp x \<le> binexp y"
proof -
  have "2 powi binexp x \<le> x"
    using assms(1) by (rule binexp_bounds)
  moreover have "y < 2 powi (binexp y + 1)"
    using assms by (intro binexp_bounds) simp
  ultimately have lt: "(2::rat) powi binexp x < 2 powi (binexp y + 1)"
    using assms(2) by linarith
  have "binexp x < binexp y + 1"
  proof (rule not_le_imp_less, rule notI)
    assume "binexp y + 1 \<le> binexp x"
    then have "(2::rat) powi (binexp y + 1) \<le> 2 powi binexp x"
      by (intro power_int_increasing) simp_all
    with lt show False by simp
  qed
  then show ?thesis by simp
qed

lemma toDouble_pos:
  assumes "0 < x"
  shows "toDouble x = of_int (roundEven (x / 2 powi (binexp x - 52))) * 2 powi (binexp x - 52)"
  using assms by (simp add: toDouble_def Let_def)

lemma toDouble_pos_bounds:
  assumes "0 < x"
  shows "2 powi binexp x \<le> toDouble x" and "toDouble x \<le> 2 powi (binexp x + 1)"
proof -
  let ?u = "(2::rat) powi (binexp x - 52)"
  have u: "0 < ?u" by (simp add: zero_less_power_int)
  have lo: "(2::rat) powi binexp x = 2 ^ 52 * ?u"
    by (simp add: power_int_diff)
  have hi: "(2::rat) powi (binexp x + 1) = 2 ^ 53 * ?u"
    by (simp add: power_int_diff power_int_add)
  have "2 ^ 52 * ?u \<le> x" "x < 2 ^ 53 * ?u"
    using binexp_bounds [OF assms] unfolding lo hi by simp_all
  then have "of_int (2 ^ 52) \<le> x / ?u" "x / ?u \<le> of_int (2 ^ 53)"
    using u by (simp_all add: field_simps)
  then have "2 ^ 52 \<le> roundEven (x / ?u)" "roundEven (x / ?u) \<le> 2 ^ 53"
    using roundEven_ge [of "2 ^ 52" "x / ?u"] roundEven_le [of "x / ?u" "2 ^ 53"] by simp_all
  then have "(of_int (2 ^ 52) :: rat) \<le> of_int (roundEven (x / ?u))"
    "(of_int (roundEven (x / ?u)) :: rat) \<le> of_int (2 ^ 53)"
    by (simp_all only: of_int_le_iff)
  then have "(2::rat) ^ 52 \<le> of_int (roundEven (x / ?u))" "of_int (roundEven (x / ?u)) \<le> (2::rat) ^ 53"
    by simp_all
  then have "2 ^ 52 * ?u \<le> of_int (roundEven (x / ?u)) * ?u"
    "of_int (roundEven (x / ?u)) * ?u \<le> 2 ^ 53 * ?u"
    using u by simp_all
  then show "2 powi binexp x \<le> toDouble x" and "toDouble x \<le> 2 powi (binexp x + 1)"
    unfolding toDouble_pos [OF assms] lo hi by simp_all
qed

lemma toDouble_mono_pos:
  assumes "0 < x" and "x \<le> y"
  shows "toDouble x \<le> toDouble y"
proof (cases "binexp x = binexp y")
  case True
  let ?u = "(2::rat) powi (binexp y - 52)"
  have u: "0 < ?u" by (simp add: zero_less_power_int)
  have "x / ?u \<le> y / ?u"
    using assms(2) u by (simp add: divide_right_mono)
  then have "roundEven (x / ?u) \<le> roundEven (y / ?u)"
    by (rule roundEven_mono)
  then have "(of_int (roundEven (x / ?u)) :: rat) \<le> of_int (roundEven (y / ?u))"
    by simp
  then have "of_int (roundEven (x / ?u)) * ?u \<le> of_int (roundEven (y / ?u)) * ?u"
    using u by simp
  then show ?thesis
    using assms True by (simp add: toDouble_pos)
next
  case False
  have y: "0 < y" using assms by simp
  have "binexp x + 1 \<le> binexp y"
    using False binexp_mono [OF assms] by simp
  then have "(2::rat) powi (binexp x + 1) \<le> 2 powi binexp y"
    by (intro power_int_increasing) simp_all
  then show ?thesis
    using toDouble_pos_bounds(2) [OF assms(1)] toDouble_pos_bounds(1) [OF y] by linarith
qed

lemma toDouble_minus: "toDouble (- x) = - toDouble x"
  by (simp add: toDouble_def Let_def)

lemma toDouble_pos_gt0:
  assumes "0 < x"
  shows "0 < toDouble x"
proof -
  have "(0::rat) < 2 powi binexp x" by (simp add: zero_less_power_int)
  then show ?thesis
    using toDouble_pos_bounds(1) [OF assms] by linarith
qed

lemma toDouble_mono:
  assumes "x \<le> y"
  shows "toDouble x \<le> toDouble y"
proof -
  consider "0 < x" | "x = 0" | "x < 0" by linarith
  then show ?thesis
  proof cases
    case 1
    then show ?thesis using assms by (rule toDouble_mono_pos)
  next
    case 2
    show ?thesis
    proof (cases "y = 0")
      case True
      then show ?thesis using 2 by simp
    next
      case False
      then have "0 < y" using assms 2 by simp
      then show ?thesis
        using toDouble_pos_gt0 [of y] 2 by (simp add: toDouble_def)
    qed
  next
    case 3
    consider "0 < y" | "y = 0" | "y < 0" by linarith
    then show ?thesis
    proof cases
      case 1
      have "toDouble x < 0"
        using toDouble_pos_gt0 [of "- x"] 3 by (simp add: toDouble_minus)
      then show ?thesis
        using toDouble_pos_gt0 [OF 1] by linarith
    next
      case 2
      have "toDouble x < 0"
        using toDouble_pos_gt0 [of "- x"] 3 by (simp add: toDouble_minus)
      then show ?thesis
        using 2 by (simp add: toDouble_def)
    next
      case 3
      have "toDouble (- y) \<le> toDouble (- x)"
        using 3 assms by (intro toDouble_mono_pos) simp_all
      then show ?thesis
        by (simp add: toDouble_minus)
    qed
  qed
qed

lemma toDouble_0 [simp]: "toDouble 0 = 0"
  by (simp add: toDouble_def)

lemma toDouble_nonneg:
  assumes "0 \<le> x"
  shows "0 \<le> toDouble x"
  using toDouble_mono [OF assms] by simp

lemma dadd_mono:
  assumes "a \<le> b" and "x \<le> y"
  shows "dadd a x \<le> dadd b y"
  unfolding dadd_def using assms by (intro toDouble_mono) simp

lemma dmul_mono:
  assumes "x \<le> y" and "0 \<le> c"
  shows "dmul x c \<le> dmul y c"
  unfolding dmul_def using assms by (intro toDouble_mono mult_right_mono)

subsection \<open>The form\<close>

text \<open>The fields that \<open>calculateCost\<close> sets when the weight is valid.\<close>

lemma calculateCost_valid:
  assumes "weightValid form"
  shows "deliveryCharge (calculateCost this form)
           = deliveryChargeFor (orString (deliveryType form) ''STANDARD'')"
    and "packingCharge (calculateCost this form)
           = packingChargeFor (orString (packingPreference form) ''BASIC'')"
    and "subtotal (calculateCost this form) =
           dadd (dadd (dadd (dadd (baseRate this)
                               (dmul (orZero (weight form)) (toDouble (2 / 100))))
                         (deliveryChargeFor (orString (deliveryType form) ''STANDARD'')))
                   (packingChargeFor (orString (packingPreference form) ''BASIC'')))
             (adminFee this)"
    and "taxAmount (calculateCost this form) =
           dmul (subtotal (calculateCost this form)) (toDouble (5 / 100))"
    and "calculatedCost (calculateCost this form) =
           Math_round (dadd (subtotal (calculateCost this form))
                            (taxAmount (calculateCost this form)))"
  using assms by (simp_all add: calculateCost_def Let_def)

text \<open>
  The officer form always adds its admin fee of 50: for 1000 g, STANDARD, BASIC it
  shows 168. The rounding of the doubles shows at the weight just below 500 g, where
  the exact formula would give 157.
\<close>

lemma officer_form_1000_standard_basic:
  "calculatedCost (calculateCost initialComponent
      \<lparr>weight = Some 1000, deliveryType = Some ''STANDARD'', packingPreference = Some ''BASIC''\<rparr>)
     = 168"
  by code_simp

lemma officer_form_below_500:
  "calculatedCost (calculateCost initialComponent
      \<lparr>weight = Some (500 - 1 / 2 ^ 44), deliveryType = Some ''STANDARD'',
       packingPreference = Some ''BASIC''\<rparr>)
     = 158"
  by code_simp

lemma literal_doubles:
  "toDouble (2 / 100) = 5764607523034235 / 2 ^ 58"
  "toDouble (5 / 100) = 3602879701896397 / 2 ^ 56"
  by code_simp+

text \<open>The backend formula is monotone in the weight as well, for either value of the flag.\<close>

lemma calculateServiceCost_mono:
  assumes "w1 \<le> w2"
  shows "calculateServiceCost w1 dt pt officer \<le> calculateServiceCost w2 dt pt officer"
  unfolding calculateServiceCost_def Let_def
  using assms by (intro Math_round_mono) simp

text \<open>
  Claim C1. The cost of a customer (non-officer) booking of 1000 g, STANDARD delivery,
  BASIC packing is 116: round((50 + 20 + 30 + 10) * 1.05) = round(115.5), with no
  admin fee.
\<close>

theorem cost_1000_standard_basic_customer:
  "calculateServiceCost 1000 ''STANDARD'' ''BASIC'' False = 116"
  by code_simp

text \<open>
  Claim C7. The switch on the delivery type gives 30 to every value other than
  STANDARD, EXPRESS and SAME_DAY, and the switch on the packing preference gives 10 to
  every value other than BASIC and PREMIUM. These are the delivery charge and the
  packing charge of the form whenever it calculates, that is, on a valid weight.
\<close>

theorem unrecognised_types_default:
  "(dt \<notin> {''STANDARD'', ''EXPRESS'', ''SAME_DAY''} \<longrightarrow> deliveryChargeFor dt = 30)
   \<and> (pt \<notin> {''BASIC'', ''PREMIUM''} \<longrightarrow> packingChargeFor pt = 10)
   \<and> (weightValid form
        \<and> deliveryType form \<notin> {Some ''STANDARD'', Some ''EXPRESS'', Some ''SAME_DAY''}
        \<longrightarrow> deliveryCharge (calculateCost this form) = 30)
   \<and> (weightValid form
        \<and> packingPreference form \<notin> {Some ''BASIC'', Some ''PREMIUM''}
        \<longrightarrow> packingCharge (calculateCost this form) = 10)"
proof (intro conjI impI)
  assume "dt \<notin> {''STANDARD'', ''EXPRESS'', ''SAME_DAY''}"
  then show "deliveryChargeFor dt = 30"
    by (simp add: deliveryChargeFor_def)
next
  assume "pt \<notin> {''BASIC'', ''PREMIUM''}"
  then show "packingChargeFor pt = 10"
    by (simp add: packingChargeFor_def)
next
  assume "weightValid form
        \<and> deliveryType form \<notin> {Some ''STANDARD'', Some ''EXPRESS'', Some ''SAME_DAY''}"
  then show "deliveryCharge (calculateCost this form) = 30"
    by (auto simp: calculateCost_valid(1) deliveryChargeFor_def orString_def split: option.splits)
next
  assume "weightValid form
        \<and> packingPreference form \<notin> {Some ''BASIC'', Some ''PREMIUM''}"
  then show "packingCharge (calculateCost this form) = 10"
    by (auto simp: calculateCost_valid(2) packingChargeFor_def orString_def split: option.splits)
qed

theorem unrecognised_types_default_witness:
  "''OVERNIGHT'' \<notin> {''STANDARD'', ''EXPRESS'', ''SAME_DAY''}
   \<and> ''GIFT'' \<notin> {''BASIC'', ''PREMIUM''}
   \<and> deliveryChargeFor ''OVERNIGHT'' = 30
   \<and> packingChargeFor ''GIFT'' = 10
   \<and> weightValid \<lparr>weight = Some 1000, deliveryType = Some ''OVERNIGHT'', packingPreference = Some ''GIFT''\<rparr>
   \<and> deliveryCharge (calculateCost initialComponent
         \<lparr>weight = Some 1000, deliveryType = Some ''OVERNIGHT'', packingPreference = Some ''GIFT''\<rparr>) = 30
   \<and> packingCharge (calculateCost initialComponent
         \<lparr>weight = Some 1000, deliveryType = Some ''OVERNIGHT'', packingPreference = Some ''GIFT''\<rparr>) = 10"
  using unrecognised_types_default
    [of "''OVERNIGHT''" "''GIFT''"
        "\<lparr>weight = Some 1000, deliveryType = Some ''OVERNIGHT'', packingPreference = Some ''GIFT''\<rparr>"
        initialComponent]
  by simp

text \<open>
  Claim C8. For a fixed delivery type, packing preference and component (so a fixed
  base rate and admin fee, which is the fee of the officer flag), the total does not
  decrease with the weight: for valid weights \<open>w1 \<le> w2\<close> the total at \<open>w1\<close> is at most
  the total at \<open>w2\<close>. The base rate and the admin fee are taken between 0 and 1000000,
  where the sums neither overflow nor fall among the subnormal numbers; the
  component holds 50 in both.
\<close>

theorem cost_monotone_in_weight:
  assumes "w1 \<le> w2"
      and "weightValid \<lparr>weight = Some w1, deliveryType = d, packingPreference = p\<rparr>"
      and "weightValid \<lparr>weight = Some w2, deliveryType = d, packingPreference = p\<rparr>"
      and "0 \<le> baseRate this \<and> baseRate this \<le> 1000000"
      and "0 \<le> adminFee this \<and> adminFee this \<le> 1000000"
  shows "calculatedCost (calculateCost this \<lparr>weight = Some w1, deliveryType = d, packingPreference = p\<rparr>)
       \<le> calculatedCost (calculateCost this \<lparr>weight = Some w2, deliveryType = d, packingPreference = p\<rparr>)"
proof -
  let ?c1 = "calculateCost this \<lparr>weight = Some w1, deliveryType = d, packingPreference = p\<rparr>"
  let ?c2 = "calculateCost this \<lparr>weight = Some w2, deliveryType = d, packingPreference = p\<rparr>"
  have "0 \<le> toDouble (2 / 100)" and tax: "0 \<le> toDouble (5 / 100)"
    by (simp_all add: toDouble_nonneg)
  then have "dmul w1 (toDouble (2 / 100)) \<le> dmul w2 (toDouble (2 / 100))"
    using assms(1) by (intro dmul_mono)
  then have sub: "subtotal ?c1 \<le> subtotal ?c2"
    unfolding calculateCost_valid(3) [OF assms(2)] calculateCost_valid(3) [OF assms(3)]
    by (auto simp: orZero_def intro!: dadd_mono)
  then have "taxAmount ?c1 \<le> taxAmount ?c2"
    unfolding calculateCost_valid(4) [OF assms(2)] calculateCost_valid(4) [OF assms(3)]
    using tax by (intro dmul_mono)
  with sub have "dadd (subtotal ?c1) (taxAmount ?c1) \<le> dadd (subtotal ?c2) (taxAmount ?c2)"
    by (rule dadd_mono)
  then show ?thesis
    unfolding calculateCost_valid(5) [OF assms(2)] calculateCost_valid(5) [OF assms(3)]
    by (rule Math_round_mono)
qed

theorem cost_monotone_in_weight_witness:
  "(500 - 1 / 2 ^ 44 :: rat) \<le> 500
   \<and> weightValid \<lparr>weight = Some (500 - 1 / 2 ^ 44), deliveryType = Some ''STANDARD'',
                  packingPreference = Some ''BASIC''\<rparr>
   \<and> weightValid \<lparr>weight = Some 500, deliveryType = Some ''STANDARD'', packingPreference = Some ''BASIC''\<rparr>
   \<and> 0 \<le> baseRate initialComponent \<and> baseRate initialComponent \<le> 1000000
   \<and> 0 \<le> adminFee initialComponent \<and> adminFee initialComponent \<le> 1000000
   \<and> calculatedCost (calculateCost initialComponent
         \<lparr>weight = Some (500 - 1 / 2 ^ 44), deliveryType = Some ''STANDARD'',
          packingPreference = Some ''BASIC''\<rparr>)
     \<le> calculatedCost (calculateCost initialComponent
         \<lparr>weight = Some 500, deliveryType = Some ''STANDARD'', packingPreference = Some ''BASIC''\<rparr>)"
  using cost_monotone_in_weight
    [of "500 - 1 / 2 ^ 44" 500 "Some ''STANDARD''" "Some ''BASIC''" initialComponent]
  by (simp add: initialComponent_def)

text \<open>
  Claim C9. When the weight control is invalid (empty, below 100 or above 50000),
  the total and the weight charge, delivery charge, packing charge, subtotal and tax
  are all set to 0.
\<close>

theorem invalid_weight_resets_costs:
  assumes "weight form = None \<or> (\<exists>v. weight form = Some v \<and> (v < 100 \<or> 50000 < v))"
  shows "calculatedCost (calculateCost this form) = 0
       \<and> weightCharge (calculateCost this form) = 0
       \<and> deliveryCharge (calculateCost this form) = 0
       \<and> packingCharge (calculateCost this form) = 0
       \<and> subtotal (calculateCost this form) = 0
       \<and> taxAmount (calculateCost this form) = 0"
proof -
  have "\<not> weightValid form"
    using assms by (auto simp: weightValid_def)
  then show ?thesis
    by (simp add: calculateCost_def Let_def)
qed

theorem invalid_weight_resets_costs_witness:
  "(weight \<lparr>weight = Some 99, deliveryType = Some ''EXPRESS'', packingPreference = Some ''PREMIUM''\<rparr> = None
      \<or> (\<exists>v. weight \<lparr>weight = Some 99, deliveryType = Some ''EXPRESS'', packingPreference = Some ''PREMIUM''\<rparr> = Some v
              \<and> (v < 100 \<or> 50000 < v)))
   \<and> calculatedCost (calculateCost initialComponent
        \<lparr>weight = Some 99, deliveryType = Some ''EXPRESS'', packingPreference = Some ''PREMIUM''\<rparr>) = 0
   \<and> deliveryCharge (calculateCost initialComponent
        \<lparr>weight = Some 99, deliveryType = Some ''EXPRESS'', packingPreference = Some ''PREMIUM''\<rparr>) = 0"
  using invalid_weight_resets_costs
    [of "\<lparr>weight = Some 99, deliveryType = Some ''EXPRESS'', packingPreference = Some ''PREMIUM''\<rparr>"
        initialComponent]
  by simp

section \<open>Properties of booking lookup and payment processing\<close>

lemma findOne_Some:
  assumes "findOne P rows = Inr (Some x)"
  shows "filter P rows = [x]"
  using assms by (auto simp: findOne_def split: list.splits)

lemma getBookingById_Some:
  assumes "getBookingById db bid = Some b"
  shows "filter (\<lambda>x. bookingId x = bid) (bookings db) = [b]"
  using assms
  by (auto simp: getBookingById_def findByBookingId_def split: sum.splits dest: findOne_Some)

lemma getBookingById_member:
  assumes "getBookingById db bid = Some b"
  shows "b \<in> set (bookings db)" and "bookingId b = bid"
proof -
  have "b \<in> set (filter (\<lambda>x. bookingId x = bid) (bookings db))"
    using getBookingById_Some [OF assms] by simp
  then show "b \<in> set (bookings db)" and "bookingId b = bid"
    by simp_all
qed

lemma getBookingById_filter:
  assumes "filter (\<lambda>x. bookingId x = bid) rows = [b]"
  shows "getBookingById \<lparr>bookings = rows, payments = ps\<rparr> bid = Some b"
  using assms by (simp add: getBookingById_def findByBookingId_def findOne_def)



text \<open>
  A NEW booking without a payment is paid: the payment is stored, the response is a
  success, and the status is set unless the save of the booking throws.
\<close>

lemma processPayment_unpaid:
  assumes "getBookingById db (p_bookingId request) = Some b"
      and "booking_id b \<notin> set (map pay_booking (payments db))"
      and "parcelStatus b = NEW"
  shows "fst (processPayment env db request) =
           \<lparr>bookings = (if saveThrows env then bookings db
                        else saveBooking (bookings db) (b\<lparr>parcelStatus := BOOKED\<rparr>)),
            payments = payments db @
              [\<lparr>paymentId = newPaymentId env, transactionId = newTransactionId env,
                pay_booking = booking_id b, amount = parcelServiceCost b,
                paymentTime = now env, maskedCard = mask env (cardNumber request)\<rparr>]\<rparr>"
    and "pr_success (body (snd (processPayment env db request)))"
    and "status (snd (processPayment env db request)) = 200"
  using assms
  by (simp_all add: processPayment_def PaymentService_processPayment_def Let_def
      updateBooking_def bookingRepository_save_def ok_def)

lemma processPayment_not_found:
  assumes "getBookingById db (p_bookingId request) = None"
  shows "processPayment env db request =
           (db, badRequest \<lparr>pr_success = False, pr_message = ''Booking not found'',
                            pr_payment = None\<rparr>)"
  using assms by (simp add: processPayment_def)






text \<open>
  When the save of the booking throws, \<open>updateBooking\<close> returns null, the controller
  still answers with a success, the payment is stored and the status is as before.
\<close>

lemma success_reported_when_save_throws:
  assumes "getBookingById db (p_bookingId request) = Some b"
      and "booking_id b \<notin> set (map pay_booking (payments db))"
      and "parcelStatus b = NEW"
      and "saveThrows env"
  shows "pr_success (body (snd (processPayment env db request)))"
    and "statusOf (fst (processPayment env db request)) (p_bookingId request) = Some NEW"
proof -
  show "pr_success (body (snd (processPayment env db request)))"
    using processPayment_unpaid(2) [OF assms(1-3)] .
  have "getBookingById (fst (processPayment env db request)) (p_bookingId request) = Some b"
    unfolding processPayment_unpaid(1) [OF assms(1-3)]
    using assms(4) getBookingById_Some [OF assms(1)] by (simp add: getBookingById_filter)
  then show "statusOf (fst (processPayment env db request)) (p_bookingId request) = Some NEW"
    using assms(3) by (simp add: statusOf_def)
qed





text \<open>The payment of the other, NEW booking of that database does go through.\<close>

lemma other_booking_is_paid:
  "map parcelStatus (bookings (fst (processPayment penv0
      \<lparr>bookings = [booking1\<lparr>parcelStatus := DELIVERED\<rparr>,
                   booking1\<lparr>booking_id := 2, bookingId := ''BK2''\<rparr>], payments = []\<rparr>
      (payRequest1\<lparr>p_bookingId := ''BK2''\<rparr>))))
     = [DELIVERED, BOOKED]"
  by (simp add: processPayment_def PaymentService_processPayment_def updateBooking_def
      bookingRepository_save_def saveBooking_def getBookingById_def findByBookingId_def
      findOne_def booking1_def payRequest1_def penv0_def Let_def)

text \<open>
  Claim C10. \<open>getBookingById\<close> answers every identifier with a stored booking of that
  identifier or with null: the booking when exactly one is stored under the
  identifier, null when none is, and null as well when the repository throws. Payment
  processing answers a null lookup with "Booking not found" and leaves the database
  as it was.
\<close>

theorem getBookingById_total:
  "(getBookingById db bid = None
      \<or> (\<exists>b. getBookingById db bid = Some b \<and> b \<in> set (bookings db) \<and> bookingId b = bid))
   \<and> (filter (\<lambda>x. bookingId x = bid) (bookings db) = [b] \<longrightarrow> getBookingById db bid = Some b)
   \<and> (filter (\<lambda>x. bookingId x = bid) (bookings db) = [] \<longrightarrow> getBookingById db bid = None)
   \<and> (findByBookingId db bid = Inl e \<longrightarrow> getBookingById db bid = None)
   \<and> (getBookingById db (p_bookingId request) = None \<longrightarrow>
        processPayment env db request =
          (db, badRequest \<lparr>pr_success = False, pr_message = ''Booking not found'',
                           pr_payment = None\<rparr>))"
proof (intro conjI impI)
  show "getBookingById db bid = None
      \<or> (\<exists>b. getBookingById db bid = Some b \<and> b \<in> set (bookings db) \<and> bookingId b = bid)"
  proof (cases "getBookingById db bid")
    case None
    then show ?thesis by simp
  next
    case (Some b)
    then show ?thesis
      using getBookingById_member [OF Some] by simp
  qed
next
  assume "filter (\<lambda>x. bookingId x = bid) (bookings db) = [b]"
  then show "getBookingById db bid = Some b"
    by (simp add: getBookingById_def findByBookingId_def findOne_def)
next
  assume "filter (\<lambda>x. bookingId x = bid) (bookings db) = []"
  then show "getBookingById db bid = None"
    by (simp add: getBookingById_def findByBookingId_def findOne_def)
next
  assume "findByBookingId db bid = Inl e"
  then show "getBookingById db bid = None"
    by (simp add: getBookingById_def)
next
  assume "getBookingById db (p_bookingId request) = None"
  then show "processPayment env db request =
          (db, badRequest \<lparr>pr_success = False, pr_message = ''Booking not found'',
                           pr_payment = None\<rparr>)"
    by (rule processPayment_not_found)
qed

theorem getBookingById_total_witness:
  "findByBookingId \<lparr>bookings = [booking1, booking1\<lparr>booking_id := 2\<rparr>], payments = []\<rparr>
      ''BK1754422694940'' = Inl IncorrectResultSizeDataAccessException
   \<and> getBookingById \<lparr>bookings = [booking1, booking1\<lparr>booking_id := 2\<rparr>], payments = []\<rparr>
      ''BK1754422694940'' = None
   \<and> filter (\<lambda>x. bookingId x = ''BK1754422694940'') (bookings \<lparr>bookings = [booking1], payments = []\<rparr>)
       = [booking1]
   \<and> getBookingById \<lparr>bookings = [booking1], payments = []\<rparr> ''BK1754422694940'' = Some booking1
   \<and> filter (\<lambda>x. bookingId x = ''BK404'') (bookings \<lparr>bookings = [booking1], payments = []\<rparr>) = []
   \<and> getBookingById \<lparr>bookings = [booking1], payments = []\<rparr>
        (p_bookingId (payRequest1\<lparr>p_bookingId := ''BK404''\<rparr>)) = None
   \<and> processPayment penv0 \<lparr>bookings = [booking1], payments = []\<rparr> (payRequest1\<lparr>p_bookingId := ''BK404''\<rparr>) =
       (\<lparr>bookings = [booking1], payments = []\<rparr>,
        badRequest \<lparr>pr_success = False, pr_message = ''Booking not found'', pr_payment = None\<rparr>)"
proof -
  let ?dup = "\<lparr>bookings = [booking1, booking1\<lparr>booking_id := 2\<rparr>], payments = []\<rparr>"
  let ?db = "\<lparr>bookings = [booking1], payments = []\<rparr>"
  let ?req = "payRequest1\<lparr>p_bookingId := ''BK404''\<rparr>"
  have thrown: "findByBookingId ?dup ''BK1754422694940'' = Inl IncorrectResultSizeDataAccessException"
    by (simp add: findByBookingId_def findOne_def booking1_def)
  have one: "filter (\<lambda>x. bookingId x = ''BK1754422694940'') (bookings ?db) = [booking1]"
    by (simp add: booking1_def)
  have none: "filter (\<lambda>x. bookingId x = ''BK404'') (bookings ?db) = []"
    by (simp add: booking1_def)
  show ?thesis
    using getBookingById_total
        [of ?dup "''BK1754422694940''" booking1 IncorrectResultSizeDataAccessException ?req penv0]
      getBookingById_total
        [of ?db "''BK1754422694940''" booking1 IncorrectResultSizeDataAccessException ?req penv0]
      getBookingById_total
        [of ?db "''BK404''" booking1 IncorrectResultSizeDataAccessException ?req penv0]
      thrown one none
    by simp
qed

section \<open>Properties of registration and login\<close>

lemma findOne_None:
  "findOne P rows = Inr None \<longleftrightarrow> filter P rows = []"
  by (auto simp: findOne_def split: list.splits)

lemma findByEmail_None:
  "findByEmail customers e = Inr None \<longleftrightarrow> e \<notin> set (map email customers)"
  unfolding findByEmail_def findOne_None by (auto simp: filter_empty_conv)

lemma findByEmail_distinct:
  assumes "distinct (map email customers)" and "e \<in> set (map email customers)"
  shows "\<exists>c. findByEmail customers e = Inr (Some c)"
proof -
  have "length (filter (\<lambda>c. email c = e) customers) \<le> 1"
    using assms(1)
  proof (induction customers)
    case Nil
    then show ?case by simp
  next
    case (Cons c cs)
    show ?case
    proof (cases "email c = e")
      case True
      then have "e \<notin> set (map email cs)"
        using Cons.prems by auto
      then have "filter (\<lambda>c. email c = e) cs = []"
        by (auto simp: filter_empty_conv)
      then show ?thesis
        using True by simp
    next
      case False
      then show ?thesis
        using Cons by simp
    qed
  qed
  moreover have "filter (\<lambda>c. email c = e) customers \<noteq> []"
    using assms(2) by (auto simp: filter_empty_conv)
  ultimately obtain c where "filter (\<lambda>c. email c = e) customers = [c]"
    by (cases "filter (\<lambda>c. email c = e) customers") auto
  then show ?thesis
    by (simp add: findByEmail_def findOne_def)
qed

text \<open>What \<open>register\<close> can do to the table: nothing, or one new row with the requested email.\<close>

lemma register_table:
  "fst (register env customers request) = customers
   \<or> (findByEmail customers (r_email request) = Inr None
       \<and> (\<exists>c. fst (register env customers request) = customers @ [c]
                \<and> email c = r_email request))"
  by (auto simp: register_def registrationFailed_def saveCustomer_def Let_def
      split: sum.splits option.splits)

lemma register_taken:
  assumes "r_email request \<in> set (map email customers)"
  shows "fst (register env customers request) = customers"
    and "\<not> success (snd (register env customers request))"
proof -
  have "findByEmail customers (r_email request) \<noteq> Inr None"
    using assms by (simp add: findByEmail_None)
  then show "fst (register env customers request) = customers"
    and "\<not> success (snd (register env customers request))"
    by (auto simp: register_def registrationFailed_def failureResponse_def
        split: sum.splits option.splits)
qed

text \<open>
  Claim C6. Registering with an email that a stored user already has fails and adds
  no row (with the message "Email already registered" when the stored emails are
  distinct), and every registration keeps the stored emails distinct.
\<close>

theorem register_keeps_email_unique:
  "(r_email request \<in> set (map email customers) \<longrightarrow>
      fst (register env customers request) = customers
      \<and> \<not> success (snd (register env customers request)))
   \<and> (r_email request \<in> set (map email customers) \<and> distinct (map email customers) \<longrightarrow>
      message (snd (register env customers request)) = ''Email already registered'')
   \<and> (distinct (map email customers) \<longrightarrow>
      distinct (map email (fst (register env customers request))))"
proof (intro conjI impI)
  assume "r_email request \<in> set (map email customers)"
  then show "fst (register env customers request) = customers"
    and "\<not> success (snd (register env customers request))"
    by (rule register_taken)+
next
  assume "r_email request \<in> set (map email customers) \<and> distinct (map email customers)"
  then obtain c where "findByEmail customers (r_email request) = Inr (Some c)"
    using findByEmail_distinct by blast
  then show "message (snd (register env customers request)) = ''Email already registered''"
    by (simp add: register_def failureResponse_def)
next
  assume d: "distinct (map email customers)"
  from register_table [of env customers request]
  show "distinct (map email (fst (register env customers request)))"
  proof
    assume "fst (register env customers request) = customers"
    then show ?thesis using d by simp
  next
    assume "findByEmail customers (r_email request) = Inr None
       \<and> (\<exists>c. fst (register env customers request) = customers @ [c]
                \<and> email c = r_email request)"
    then show ?thesis
      using d by (auto simp: findByEmail_None)
  qed
qed

theorem register_keeps_email_unique_witness:
  "r_email \<lparr>r_customerName = ''Alice Again'', r_email = ''alice@example.com'', r_password = ''pw12345'',
            r_countryCode = ''+91'', r_mobileNumber = ''9000000001'', r_address = ''3 Hill Street, Pune'',
            r_role = ''CUSTOMER'', r_preferences = ''EMAIL''\<rparr> \<in> set (map email [alice, officerRavi])
   \<and> distinct (map email [alice, officerRavi])
   \<and> fst (register env0 [alice, officerRavi]
        \<lparr>r_customerName = ''Alice Again'', r_email = ''alice@example.com'', r_password = ''pw12345'',
         r_countryCode = ''+91'', r_mobileNumber = ''9000000001'', r_address = ''3 Hill Street, Pune'',
         r_role = ''CUSTOMER'', r_preferences = ''EMAIL''\<rparr>) = [alice, officerRavi]
   \<and> message (snd (register env0 [alice, officerRavi]
        \<lparr>r_customerName = ''Alice Again'', r_email = ''alice@example.com'', r_password = ''pw12345'',
         r_countryCode = ''+91'', r_mobileNumber = ''9000000001'', r_address = ''3 Hill Street, Pune'',
         r_role = ''CUSTOMER'', r_preferences = ''EMAIL''\<rparr>)) = ''Email already registered''
   \<and> distinct (map email (fst (register env0 [alice, officerRavi]
        \<lparr>r_customerName = ''Alice Again'', r_email = ''alice@example.com'', r_password = ''pw12345'',
         r_countryCode = ''+91'', r_mobileNumber = ''9000000001'', r_address = ''3 Hill Street, Pune'',
         r_role = ''CUSTOMER'', r_preferences = ''EMAIL''\<rparr>)))"
  using register_keeps_email_unique
    [of "\<lparr>r_customerName = ''Alice Again'', r_email = ''alice@example.com'', r_password = ''pw12345'',
         r_countryCode = ''+91'', r_mobileNumber = ''9000000001'', r_address = ''3 Hill Street, Pune'',
         r_role = ''CUSTOMER'', r_preferences = ''EMAIL''\<rparr>" "[alice, officerRavi]" env0]
  by (simp add: alice_def officerRavi_def)

text \<open>A registration with a fresh email does add the user (the check is not vacuous).\<close>

lemma String_valueOf_numeral:
  "String_valueOf (numeral k) =
     (if (numeral k :: nat) < 10 then [digitChar (numeral k)]
      else String_valueOf (numeral k div 10) @ [digitChar (numeral k mod 10)])"
  by (rule String_valueOf.simps)

lemma register_fresh_example:
  "map email (fst (register env0 [alice]
        \<lparr>r_customerName = ''Bala'', r_email = ''bala@example.com'', r_password = ''pw12345'',
         r_countryCode = ''+91'', r_mobileNumber = ''9000000002'', r_address = ''4 Hill Street, Pune'',
         r_role = ''CUSTOMER'', r_preferences = ''EMAIL''\<rparr>))
     = [''alice@example.com'', ''bala@example.com'']
   \<and> map uniqueId (fst (register env0 [alice]
        \<lparr>r_customerName = ''Bala'', r_email = ''bala@example.com'', r_password = ''pw12345'',
         r_countryCode = ''+91'', r_mobileNumber = ''9000000002'', r_address = ''4 Hill Street, Pune'',
         r_role = ''CUSTOMER'', r_preferences = ''EMAIL''\<rparr>))
     = [''CUST94940111'', ''CUST94940417'']"
  by (simp add: register_def findByEmail_def findOne_def UserRole_valueOf_def substring_def
      saveCustomer_def nextCustomerId_def String_valueOf_numeral digitChar_def
      String_valueOf.simps [of "Suc 0"] env0_def alice_def Let_def)

text \<open>
  Claim C5, as stated, fails: on either endpoint a request whose unique id belongs to
  a user of the other role is answered differently from a request whose unique id is
  unknown.
\<close>

theorem wrong_role_reveals_identifier:
  "findByUniqueId [alice, officerRavi] ''CUST00000000'' = Inr None
   \<and> findByUniqueId [alice, officerRavi] ''OFF94940222'' = Inr (Some officerRavi)
   \<and> findByUniqueId [alice, officerRavi] ''CUST94940111'' = Inr (Some alice)
   \<and> login env0 [alice, officerRavi] \<lparr>l_email = ''CUST00000000'', l_password = ''guess''\<rparr>
       = Inr (failureResponse ''Invalid Customer ID or password'')
   \<and> login env0 [alice, officerRavi] \<lparr>l_email = ''OFF94940222'', l_password = ''guess''\<rparr>
       = Inr (failureResponse
           ''Access denied. Customer login required. Please use officer login for officer accounts.'')
   \<and> login env0 [alice, officerRavi] \<lparr>l_email = ''CUST00000000'', l_password = ''guess''\<rparr>
       \<noteq> login env0 [alice, officerRavi] \<lparr>l_email = ''OFF94940222'', l_password = ''guess''\<rparr>
   \<and> officerLogin env0 [alice, officerRavi] \<lparr>l_email = ''CUST00000000'', l_password = ''guess''\<rparr>
       \<noteq> officerLogin env0 [alice, officerRavi] \<lparr>l_email = ''CUST94940111'', l_password = ''guess''\<rparr>"
  by (simp add: login_def officerLogin_def findByUniqueId_def findOne_def alice_def
      officerRavi_def failureResponse_def)

text \<open>
  Claim C5, amended. A request with an unknown unique id and a request with the
  unique id of a user of the endpoint's own role and a wrong password get the same
  failure response ("Invalid Customer ID or password" on the customer login,
  "Invalid Officer ID or password" on the officer login). A request with the unique
  id of a user of the other role gets an "Access denied" response, whatever the
  password.
\<close>

theorem login_failure_responses:
  assumes "findByUniqueId customers (l_email r1) = Inr None"
      and "findByUniqueId customers (l_email r2) = Inr (Some c)"
  shows "login env customers r1 = Inr (failureResponse ''Invalid Customer ID or password'')
       \<and> officerLogin env customers r1 = Inr (failureResponse ''Invalid Officer ID or password'')
       \<and> (role c = CUSTOMER \<and> \<not> matches env (l_password r2) (password c) \<longrightarrow>
            login env customers r2 = login env customers r1)
       \<and> (role c = OFFICER \<and> \<not> matches env (l_password r2) (password c) \<longrightarrow>
            officerLogin env customers r2 = officerLogin env customers r1)
       \<and> (role c \<noteq> CUSTOMER \<longrightarrow>
            login env customers r2 = Inr (failureResponse
              ''Access denied. Customer login required. Please use officer login for officer accounts.''))
       \<and> (role c \<noteq> OFFICER \<longrightarrow>
            officerLogin env customers r2
              = Inr (failureResponse ''Access denied. Officer privileges required''))"
  using assms by (simp add: login_def officerLogin_def)

theorem login_failure_responses_witness:
  "findByUniqueId [alice, officerRavi] (l_email \<lparr>l_email = ''CUST00000000'', l_password = ''guess''\<rparr>) = Inr None
   \<and> findByUniqueId [alice, officerRavi] (l_email \<lparr>l_email = ''CUST94940111'', l_password = ''guess''\<rparr>)
       = Inr (Some alice)
   \<and> findByUniqueId [alice, officerRavi] (l_email \<lparr>l_email = ''OFF94940222'', l_password = ''guess''\<rparr>)
       = Inr (Some officerRavi)
   \<and> role alice = CUSTOMER
   \<and> role officerRavi = OFFICER
   \<and> login env0 [alice, officerRavi] \<lparr>l_email = ''CUST94940111'', l_password = ''guess''\<rparr>
       = login env0 [alice, officerRavi] \<lparr>l_email = ''CUST00000000'', l_password = ''guess''\<rparr>
   \<and> officerLogin env0 [alice, officerRavi] \<lparr>l_email = ''OFF94940222'', l_password = ''guess''\<rparr>
       = officerLogin env0 [alice, officerRavi] \<lparr>l_email = ''CUST00000000'', l_password = ''guess''\<rparr>
   \<and> officerLogin env0 [alice, officerRavi] \<lparr>l_email = ''CUST94940111'', l_password = ''guess''\<rparr>
       = Inr (failureResponse ''Access denied. Officer privileges required'')"
proof -
  let ?cs = "[alice, officerRavi]"
  let ?unknown = "\<lparr>l_email = ''CUST00000000'', l_password = ''guess''\<rparr>"
  let ?asAlice = "\<lparr>l_email = ''CUST94940111'', l_password = ''guess''\<rparr>"
  let ?asRavi = "\<lparr>l_email = ''OFF94940222'', l_password = ''guess''\<rparr>"
  have u: "findByUniqueId ?cs (l_email ?unknown) = Inr None"
    by (simp add: findByUniqueId_def findOne_def alice_def officerRavi_def)
  have a: "findByUniqueId ?cs (l_email ?asAlice) = Inr (Some alice)"
    by (simp add: findByUniqueId_def findOne_def alice_def officerRavi_def)
  have r: "findByUniqueId ?cs (l_email ?asRavi) = Inr (Some officerRavi)"
    by (simp add: findByUniqueId_def findOne_def alice_def officerRavi_def)
  have ra: "role alice = CUSTOMER" "\<not> matches env0 (l_password ?asAlice) (password alice)"
    by (simp_all add: alice_def env0_def)
  have rr: "role officerRavi = OFFICER" "\<not> matches env0 (l_password ?asRavi) (password officerRavi)"
    by (simp_all add: officerRavi_def env0_def)
  show ?thesis
    using login_failure_responses [OF u a, of env0] login_failure_responses [OF u r, of env0]
      u a r ra rr
    by simp
qed

section \<open>Properties of the feedback listing\<close>

text \<open>
  When no feedback matches the filter in any of the three fields, the service returns
  the first page of all feedback.
\<close>

lemma filtered_no_match:
  assumes "filter (\<lambda>f. containingIgnoreCase (customerName (customer f)) flt) feedbacks = []"
      and "filter (\<lambda>f. containingIgnoreCase (bookingId (booking f)) flt) feedbacks = []"
      and "filter (\<lambda>f. containingIgnoreCase (feedbackDescription f) flt) feedbacks = []"
  shows "filtered feedbacks pageable flt = pageOf feedbacks (PageRequest_of 0 (pageSize pageable))"
  using assms
  by (simp add: filtered_def findByCustomerNameContainingIgnoreCase_def
      findByBookingIdContainingIgnoreCase_def findByFeedbackDescriptionContainingIgnoreCase_def
      findAll_def hasContent_def pageOf_def Let_def)

lemma filtered_customer_first:
  assumes "hasContent (findByCustomerNameContainingIgnoreCase feedbacks flt pageable)"
  shows "filtered feedbacks pageable flt = findByCustomerNameContainingIgnoreCase feedbacks flt pageable"
  using assms by (simp add: filtered_def Let_def)

text \<open>
  Claim C4 at a failing input. One feedback is stored; the filter \<open>zzz\<close> matches
  neither its customer name, nor its booking id, nor its description; the answer is
  the page holding that feedback, with \<open>totalElements = 1\<close>.
\<close>

theorem no_match_returns_all_feedback:
  "\<not> containingIgnoreCase (customerName (customer feedback1)) ''zzz''
   \<and> \<not> containingIgnoreCase (bookingId (booking feedback1)) ''zzz''
   \<and> \<not> containingIgnoreCase (feedbackDescription feedback1) ''zzz''
   \<and> getOfficerFeedbackPaginated [feedback1] (PageRequest_of 0 10) (Some ''zzz'')
       = \<lparr>content = [feedback1], totalElements = 1, pageNo = 0, pageSz = 10\<rparr>"
  by code_simp

end
